theory Spec2Isabelle
  imports Complex_Main "HOL-Library.Word" "HOL-Library.Signed_Division"
begin

section \<open>Constants and data of the quad demos\<close>

text \<open>
  The repository holds several variants of one OpenGL demo. The variant modelled in
  full is \<^verbatim>\<open>gles20-cube/test20-framebuffer-multisample/quad.go\<close>; the functions of
  \<^verbatim>\<open>gl32-cube/test21-framebuffer-multisample/quad.go\<close> and
  \<^verbatim>\<open>gl32-cube/test21-framebuffer/quad.go\<close> that differ from it carry the prefix
  \<open>gl32ms_\<close> and \<open>gl32fb_\<close>.

  Go's \<open>int\<close> is modelled as \<open>int\<close>: every \<open>int\<close> of the code is a slice length or a
  small multiple of one, far from 64 bits. \<open>uint16\<close>, \<open>uint8\<close>, \<open>int32\<close> and \<open>uint32\<close>
  are words, with their wrap-around. A \<open>float32\<close> is modelled by the real number it
  denotes; the only float operations of the code are halving, negation and the
  conversion to \<open>int32\<close>.
\<close>

type_synonym float32 = real
type_synonym uint8 = "8 word"
type_synonym uint16 = "16 word"
type_synonym uint32 = "32 word"
type_synonym int32 = "32 word"

definition windowWidth :: int where "windowWidth = 600"
definition windowHeight :: int where "windowHeight = 400"
definition bytesFloat32 :: int where "bytesFloat32 = 4"
definition bytesUint32 :: int where "bytesUint32 = 4"
definition bytesUint16 :: int where "bytesUint16 = 2"
definition bytesUint8 :: int where "bytesUint8 = 1"
definition vertexPositionSize :: int where "vertexPositionSize = 3"
definition vertexTexCoordSize :: int where "vertexTexCoordSize = 2"
definition vertexColorSize :: int where "vertexColorSize = 4"
definition verticesPerQuad :: int where "verticesPerQuad = 4"
definition indicesPerQuad :: int where "indicesPerQuad = 6"
definition msaaSamples :: int where "msaaSamples = 8"

text \<open>\<open>color.NRGBA\<close> of Go's image/color: four \<open>uint8\<close> fields.\<close>

record NRGBA =
  R :: uint8
  G :: uint8
  B :: uint8
  A :: uint8

text \<open>
  \<open>ElementQuads\<close> is declared twice in the repository, with \<open>QuadColors []uint8\<close> in the
  gles20 variant and \<open>QuadColors []uint32\<close> in the gl32 multisample variant; the colour
  element type is the parameter \<open>'c\<close>.
\<close>

record 'c ElementQuads =
  QuadVertices :: "float32 list"
  QuadTexCoords :: "uint8 list"
  QuadIndices :: "uint16 list"
  OffsetVertices :: int
  OffsetTexCoords :: int
  OffsetIndices :: int
  BytesTotal :: int
  QuadColors :: "'c list"
  OffsetColors :: int

section \<open>The quad batch\<close>

definition makeQuadVertices :: "float32 \<Rightarrow> float32 \<Rightarrow> float32 \<Rightarrow> float32 list" where
  "makeQuadVertices w h z =
     [ (w * 0.5), (h * 0.5), z,
       - (w * 0.5), (h * 0.5), z,
       - (w * 0.5), - (h * 0.5), z,
       (w * 0.5), - (h * 0.5), z ]"

definition makeQuadTextureCoord :: "uint8 list" where
  "makeQuadTextureCoord = [1, 1,  0, 1,  0, 0,  1, 0]"

definition makeQuadColors :: "NRGBA \<Rightarrow> uint8 list" where
  "makeQuadColors clr =
     [ R clr, G clr, B clr, A clr,
       R clr, G clr, B clr, A clr,
       R clr, G clr, B clr, A clr,
       R clr, G clr, B clr, A clr ]"

text \<open>
  \<open>quadVerticesLen / (verticesPerQuad * vertexPositionSize)\<close> is Go's integer division,
  which truncates towards zero (\<open>sdiv\<close>); \<open>uint16(...)\<close> keeps the low 16 bits
  (\<open>word_of_int\<close>); the multiplication and the additions are \<open>uint16\<close> arithmetic.
\<close>

definition makeQuadIndices :: "int \<Rightarrow> uint16 list" where
  "makeQuadIndices quadVerticesLen =
     (let rectangleCount = quadVerticesLen sdiv (verticesPerQuad * vertexPositionSize);
          i = (word_of_int (rectangleCount - 1) :: uint16) * word_of_int verticesPerQuad
      in [ i, i + 1, i + 2,
           i, i + 2, i + 3 ])"

text \<open>\<open>len(xs)\<close> as a Go \<open>int\<close>.\<close>

abbreviation len :: "'a list \<Rightarrow> int" where
  "len xs \<equiv> int (length xs)"

definition DrawRectangle ::
  "uint8 ElementQuads \<Rightarrow> float32 \<Rightarrow> float32 \<Rightarrow> float32 \<Rightarrow> NRGBA \<Rightarrow> uint8 ElementQuads"
  where
  "DrawRectangle q w h z clr =
     (let q1 = q \<lparr> QuadVertices := QuadVertices q @ makeQuadVertices w h z \<rparr>;
          q2 = q1 \<lparr> QuadTexCoords := QuadTexCoords q1 @ makeQuadTextureCoord \<rparr>;
          q3 = q2 \<lparr> QuadColors := QuadColors q2 @ makeQuadColors clr \<rparr>
      in q3 \<lparr> QuadIndices := QuadIndices q3 @ makeQuadIndices (len (QuadVertices q3)) \<rparr>)"

text \<open>Go's \<open>%v\<close> of an \<open>int\<close>: decimal digits, with a minus sign when negative.\<close>

fun fmtNat :: "nat \<Rightarrow> string" where
  "fmtNat n =
     (if n < 10 then [''0123456789'' ! n]
      else fmtNat (n div 10) @ [''0123456789'' ! (n mod 10)])"

declare fmtNat.simps [simp del]

definition fmtInt :: "int \<Rightarrow> string" where
  "fmtInt i = (if i < 0 then CHR ''-'' # fmtNat (nat (- i)) else fmtNat (nat i))"

definition newline :: string where
  "newline = [CHR 0x0A]"

text \<open>\<open>DebugPrint\<close> writes to standard output; the model returns the text written.\<close>

definition DebugPrint :: "'c ElementQuads \<Rightarrow> string" where
  "DebugPrint q =
     ''RECT_COUNT -- Rectangles: '' @ fmtInt (len (QuadIndices q) sdiv indicesPerQuad) @ newline
     @ ''RAW_LENGTH -- Rectangle has '' @ fmtInt verticesPerQuad @ '' vertex'' @ newline
     @ ''Vertices   '' @ fmtInt (len (QuadVertices q))
       @ '' ('' @ fmtInt vertexPositionSize @ ''-per-vertex)'' @ newline
     @ ''TexCoord   '' @ fmtInt (len (QuadTexCoords q))
       @ '' ('' @ fmtInt vertexTexCoordSize @ ''-per-vertex)'' @ newline
     @ ''Colors     '' @ fmtInt (len (QuadColors q))
       @ '' ('' @ fmtInt vertexColorSize @ ''-per-vertex)'' @ newline
     @ ''Indices    '' @ fmtInt (len (QuadIndices q))
       @ '' ('' @ fmtInt indicesPerQuad @ ''-per-rectangle)'' @ newline"

text \<open>
  The composite literal of \<open>ContextFramebufferMultisample.load\<close>: a batch with empty
  streams and zero offsets.
\<close>

definition emptyQuads :: "uint8 ElementQuads" where
  "emptyQuads =
     \<lparr> QuadVertices = [], QuadTexCoords = [], QuadIndices = [],
       OffsetVertices = 0, OffsetTexCoords = 0, OffsetIndices = 0,
       BytesTotal = 0, QuadColors = [], OffsetColors = 0 \<rparr>"

text \<open>
  A rectangle to draw is the argument tuple of one \<open>DrawRectangle\<close> call;
  \<open>DrawRectangles\<close> is a sequence of such calls on one batch, in order.
\<close>

type_synonym rectangle = "float32 \<times> float32 \<times> float32 \<times> NRGBA"

definition DrawRectangles :: "uint8 ElementQuads \<Rightarrow> rectangle list \<Rightarrow> uint8 ElementQuads"
  where
  "DrawRectangles q rs = foldl (\<lambda>q (w, h, z, clr). DrawRectangle q w h z clr) q rs"

text \<open>
  \<open>ContextFramebufferMultisample.load\<close> builds the batch of the offscreen target: a red
  2 by 2 rectangle at depth -1.2, then a blue 1 by 1 rectangle at depth -1.1. The model
  returns the batch stored in \<open>ctx.quads\<close> and the text that \<open>DebugPrint\<close> writes.
  \<open>ContextScreen.load\<close> builds the batch of the screen: one quad over the whole surface,
  with no colour stream.
\<close>

definition ContextFramebufferMultisample_load :: "uint8 ElementQuads \<times> string" where
  "ContextFramebufferMultisample_load =
     (let q0 = emptyQuads;
          q1 = DrawRectangle q0 2 2 (-1.2) \<lparr> R = 1, G = 0, B = 0, A = 1 \<rparr>;
          q2 = DrawRectangle q1 1 1 (-1.1) \<lparr> R = 0, G = 0, B = 255, A = 1 \<rparr>
      in (q2, DebugPrint q2))"

definition ContextScreen_load :: "uint8 ElementQuads" where
  "ContextScreen_load =
     (let q0 = \<lparr> QuadVertices = [], QuadTexCoords = [], QuadIndices = [],
                  OffsetVertices = 0, OffsetTexCoords = 0, OffsetIndices = 0,
                  BytesTotal = 0, QuadColors = [], OffsetColors = 0 \<rparr>;
          q1 = q0 \<lparr> QuadVertices := [1, 1, 0,  - 1, 1, 0,  - 1, - 1, 0,  1, - 1, 0] \<rparr>;
          q2 = q1 \<lparr> QuadTexCoords := QuadTexCoords q1 @ makeQuadTextureCoord \<rparr>
      in q2 \<lparr> QuadIndices := QuadIndices q2 @ makeQuadIndices (len (QuadVertices q2)) \<rparr>)"

section \<open>The buffer layout\<close>

text \<open>
  \<open>ContextFramebufferMultisample.setupBuffers\<close> and \<open>ContextScreen.setupBuffers\<close> select
  the program and then compute the layout of the vertex buffer from the lengths of the
  streams; the rest of either function creates OpenGL objects and uploads the streams,
  and writes none of the fields of \<open>ctx.quads\<close>. The model is the block that computes
  the layout.
\<close>

definition ContextFramebufferMultisample_setupBuffers ::
  "uint8 ElementQuads \<Rightarrow> uint8 ElementQuads" where
  "ContextFramebufferMultisample_setupBuffers q =
     (let q1 = q \<lparr> BytesTotal := (len (QuadVertices q) * bytesFloat32)
                     + (len (QuadTexCoords q) * bytesUint8)
                     + (len (QuadColors q) * bytesUint8) \<rparr>;
          q2 = q1 \<lparr> OffsetVertices := 0 * bytesFloat32 \<rparr>;
          q3 = q2 \<lparr> OffsetTexCoords := OffsetVertices q2 + len (QuadVertices q2) * bytesFloat32 \<rparr>;
          q4 = q3 \<lparr> OffsetColors := OffsetTexCoords q3 + len (QuadTexCoords q3) * bytesUint8 \<rparr>
      in q4 \<lparr> OffsetIndices := 0 * bytesUint16 \<rparr>)"

definition ContextScreen_setupBuffers :: "uint8 ElementQuads \<Rightarrow> uint8 ElementQuads" where
  "ContextScreen_setupBuffers q =
     (let q1 = q \<lparr> BytesTotal := (len (QuadVertices q) * bytesFloat32)
                     + (len (QuadTexCoords q) * bytesUint8) \<rparr>;
          q2 = q1 \<lparr> OffsetVertices := 0 * bytesFloat32 \<rparr>;
          q3 = q2 \<lparr> OffsetTexCoords := OffsetVertices q2 + len (QuadVertices q2) * bytesFloat32 \<rparr>
      in q3 \<lparr> OffsetIndices := 0 * bytesUint16 \<rparr>)"

text \<open>
  \<^verbatim>\<open>gl32-cube/test21-framebuffer/quad.go\<close> keeps the batch in package-level variables, with
  \<open>uint32\<close> colours; its \<open>setupBuffers\<close> has the same block.
\<close>

record gl32fb_globals =
  quadVertices :: "float32 list"
  quadTexCoords :: "uint8 list"
  quadColors :: "uint32 list"
  quadIndices :: "uint16 list"
  offsetVertices :: int
  offsetTexCoords :: int
  offsetColors :: int
  vboBytesTotal :: int
  programScreen :: uint32
  programFramebuffer :: uint32
  fbo :: uint32
  fboTexture :: uint32
  fboRenderbuffer :: uint32
  vbo :: uint32
  ibo :: uint32
  attribVertexPosition :: uint32
  attribVertexTexCoord :: uint32
  attribVertexColor :: uint32
  attribVertexPositionFBO :: uint32
  attribVertexTextureFBO :: uint32

definition gl32fb_setupBuffers :: "gl32fb_globals \<Rightarrow> gl32fb_globals" where
  "gl32fb_setupBuffers g =
     (let g1 = g \<lparr> vboBytesTotal := (len (quadVertices g) * bytesFloat32)
                     + (len (quadTexCoords g) * bytesUint8)
                     + (len (quadColors g) * bytesUint32) \<rparr>;
          g2 = g1 \<lparr> offsetVertices := 0 * bytesFloat32 \<rparr>;
          g3 = g2 \<lparr> offsetTexCoords := offsetVertices g2 + len (quadVertices g2) * bytesFloat32 \<rparr>
      in g3 \<lparr> offsetColors := offsetTexCoords g3 + len (quadTexCoords g3) * bytesUint8 \<rparr>)"

section \<open>OpenGL calls\<close>

text \<open>
  The OpenGL binding is outside the repository. A function of the code that calls it is
  modelled by the list of calls it issues, in order, with their arguments; names that
  OpenGL hands out (\<open>GenTextures\<close>, \<open>GenRenderbuffers\<close>) and the error code that
  \<open>GetError\<close> returns are inputs of the model. \<open>gl_enum\<close> lists the constants of the
  binding that the modelled functions pass.
\<close>

datatype gl_enum =
    FRAMEBUFFER | READ_FRAMEBUFFER | DRAW_FRAMEBUFFER | FRAMEBUFFER_EXT
  | COLOR_BUFFER_BIT | DEPTH_BUFFER_BIT
  | DEPTH_TEST | MULTISAMPLE_EXT
  | ARRAY_BUFFER | ELEMENT_ARRAY_BUFFER
  | TEXTURE0 | TEXTURE_2D | TEXTURE_2D_MULTISAMPLE
  | TEXTURE_MIN_FILTER | TEXTURE_MAG_FILTER | NEAREST
  | COLOR_ATTACHMENT0 | DEPTH_STENCIL_ATTACHMENT
  | RENDERBUFFER | RENDERBUFFER_EXT | DEPTH24_STENCIL8
  | RGB | FLOAT | UNSIGNED_BYTE | UNSIGNED_SHORT | UNSIGNED_INT
  | TRIANGLES

datatype gl_call =
    BindFramebuffer gl_enum uint32
  | BindFramebufferEXT gl_enum uint32
  | UseProgram uint32
  | ClearColor float32 float32 float32 float32
  | Clear "gl_enum list"
  | Enable gl_enum
  | Disable gl_enum
  | FramebufferTexture2D gl_enum gl_enum gl_enum uint32 int
  | FramebufferTexture2DEXT gl_enum gl_enum gl_enum uint32 int
  | BlitFramebuffer int32 int32 int32 int32 int32 int32 int32 int32 "gl_enum list" gl_enum
  | BindBuffer gl_enum uint32
  | ActiveTexture gl_enum
  | BindTexture gl_enum uint32
  | EnableVertexAttribArray uint32
  | DisableVertexAttribArray uint32
  | BufferSubData gl_enum int int "uint8 list"
  | VertexAttribPointer uint32 int gl_enum bool int int
  | DrawElements gl_enum int32 gl_enum int
  | GenTextures int
  | TexImage2D gl_enum int gl_enum int32 int32 int gl_enum gl_enum
  | TexParameteri gl_enum gl_enum gl_enum
  | GenRenderbuffers int
  | GenRenderbuffersEXT int
  | BindRenderbuffer gl_enum uint32
  | BindRenderbufferEXT gl_enum uint32
  | RenderbufferStorageMultisampleEXT gl_enum int gl_enum int32 int32
  | RenderbufferStorageEXT gl_enum gl_enum int32 int32
  | FramebufferRenderbuffer gl_enum gl_enum gl_enum uint32
  | FramebufferRenderbufferEXT gl_enum gl_enum gl_enum uint32
  | GetError

text \<open>
  Go's conversion \<open>int32(f)\<close> of a \<open>float32\<close> discards the fraction (truncation towards
  zero). For a value outside the range of \<open>int32\<close> Go leaves the result to the
  implementation; the model wraps there.
\<close>

definition int32_of_float32 :: "float32 \<Rightarrow> int32" where
  "int32_of_float32 f = word_of_int (if 0 \<le> f then \<lfloor>f\<rfloor> else \<lceil>f\<rceil>)"

section \<open>The gles20 multisample program\<close>

record ContextScreen =
  quads :: "uint8 ElementQuads"
  program :: uint32
  vbo :: uint32
  ibo :: uint32
  vao :: uint32
  attribVertexPosition :: uint32
  attribVertexTexCoord :: uint32

record ContextFramebufferMultisample =
  quads :: "uint8 ElementQuads"
  program :: uint32
  fbo :: uint32
  fboTexture :: uint32
  fboRenderbuffer :: uint32
  vbo :: uint32
  ibo :: uint32
  vao :: uint32
  attribVertexPosition :: uint32
  attribVertexTexCoord :: uint32
  attribVertexColor :: uint32

record ContextFramebuffer =
  fbo :: uint32
  fboTexture :: uint32

text \<open>
  The package-level variables of the program. Each context type has one instance, and
  every method is called on that instance only, so a method is modelled as a function of
  the globals. \<open>ctx.quads\<close> is a pointer in the code; \<open>load\<close> gives each context a batch of
  its own, so the batches are held by value.
\<close>

record globals =
  dpiScaleX :: float32
  dpiScaleY :: float32
  ctxScreen :: ContextScreen
  ctxBlitz :: ContextFramebuffer
  ctxFramebufferMultisample :: ContextFramebufferMultisample

definition ContextFramebufferMultisample_bind :: "globals \<Rightarrow> gl_call list" where
  "ContextFramebufferMultisample_bind g =
     (let ctx = ctxFramebufferMultisample g
      in [ BindFramebuffer FRAMEBUFFER (ContextFramebufferMultisample.fbo ctx),
           BindFramebuffer READ_FRAMEBUFFER (ContextFramebufferMultisample.fbo ctx),
           BindFramebuffer DRAW_FRAMEBUFFER (ContextFramebufferMultisample.fbo ctx),
           UseProgram (ContextFramebufferMultisample.program ctx),
           ClearColor 0.5 0.5 0.5 0,
           Clear [COLOR_BUFFER_BIT, DEPTH_BUFFER_BIT],
           Enable DEPTH_TEST,
           Enable MULTISAMPLE_EXT ])"

definition ContextScreen_bind :: "globals \<Rightarrow> gl_call list" where
  "ContextScreen_bind g =
     (let ctx = ctxScreen g
      in [ BindFramebuffer FRAMEBUFFER 0,
           BindFramebuffer READ_FRAMEBUFFER 0,
           BindFramebuffer DRAW_FRAMEBUFFER 0,
           UseProgram (ContextScreen.program ctx),
           ClearColor 0 0 0 0,
           Clear [COLOR_BUFFER_BIT],
           Disable DEPTH_TEST,
           Enable MULTISAMPLE_EXT ])"

definition ContextFramebuffer_bind :: "globals \<Rightarrow> gl_call list" where
  "ContextFramebuffer_bind g =
     (let ctx = ctxBlitz g
      in [ BindFramebuffer READ_FRAMEBUFFER
             (ContextFramebufferMultisample.fbo (ctxFramebufferMultisample g)),
           BindFramebuffer DRAW_FRAMEBUFFER (ContextFramebuffer.fbo ctx),
           FramebufferTexture2D READ_FRAMEBUFFER COLOR_ATTACHMENT0 TEXTURE_2D_MULTISAMPLE
             (ContextFramebufferMultisample.fboTexture (ctxFramebufferMultisample g)) 0,
           FramebufferTexture2D DRAW_FRAMEBUFFER COLOR_ATTACHMENT0 TEXTURE_2D
             (ContextFramebuffer.fboTexture ctx) 0 ])"

definition ContextFramebuffer_draw :: "globals \<Rightarrow> gl_call list" where
  "ContextFramebuffer_draw g =
     (let windowWidthHDPI = word_of_int windowWidth * int32_of_float32 (dpiScaleX g);
          windowHeightHDPI = word_of_int windowHeight * int32_of_float32 (dpiScaleY g)
      in [ BlitFramebuffer 0 0 windowWidthHDPI windowHeightHDPI
             0 0 windowWidthHDPI windowHeightHDPI [COLOR_BUFFER_BIT] NEAREST ])"

text \<open>
  \<open>RandomColorInRGBA\<close> draws three numbers with \<open>rand.Intn(0xff)\<close>; the model takes them
  as its argument.
\<close>

definition RandomColorInRGBA :: "int \<times> int \<times> int \<Rightarrow> NRGBA" where
  "RandomColorInRGBA rnd =
     (case rnd of (r, g, b) \<Rightarrow>
        \<lparr> R = word_of_int r, G = word_of_int g, B = word_of_int b, A = 1 \<rparr>)"

text \<open>
  The loop of \<open>ContextFramebufferMultisample.draw\<close> that fills \<open>QuadColors\<close> again:
  \<open>for i := 0; i < nQuads; i++\<close>. \<open>rnd i\<close> is what the random generator gives in
  iteration \<open>i\<close>.
\<close>

function randomizeColors ::
  "(int \<Rightarrow> int \<times> int \<times> int) \<Rightarrow> int \<Rightarrow> int \<Rightarrow> uint8 list \<Rightarrow> uint8 list" where
  "randomizeColors rnd nQuads i colors =
     (if i < nQuads
      then randomizeColors rnd nQuads (i + 1) (colors @ makeQuadColors (RandomColorInRGBA (rnd i)))
      else colors)"
  by pat_completeness auto
termination
  by (relation "measure (\<lambda>(rnd, nQuads, i, colors). nat (nQuads - i))") auto

declare randomizeColors.simps [simp del]

definition ContextFramebufferMultisample_draw ::
  "(int \<Rightarrow> int \<times> int \<times> int) \<Rightarrow> globals \<Rightarrow> gl_call list \<times> globals" where
  "ContextFramebufferMultisample_draw rnd g =
     (let ctx = ctxFramebufferMultisample g;
          t1 = [ BindBuffer ARRAY_BUFFER (ContextFramebufferMultisample.vbo ctx),
                 BindBuffer ELEMENT_ARRAY_BUFFER (ContextFramebufferMultisample.ibo ctx),
                 ActiveTexture TEXTURE0,
                 BindTexture TEXTURE_2D_MULTISAMPLE
                   (ContextFramebufferMultisample.fboTexture (ctxFramebufferMultisample g)),
                 EnableVertexAttribArray (ContextFramebufferMultisample.attribVertexPosition ctx),
                 EnableVertexAttribArray (ContextFramebufferMultisample.attribVertexTexCoord ctx),
                 EnableVertexAttribArray (ContextFramebufferMultisample.attribVertexColor ctx) ];
          q = ContextFramebufferMultisample.quads ctx;
          nQuads = len (QuadIndices q) sdiv indicesPerQuad;
          q = q \<lparr> QuadColors := [] \<rparr>;
          q = q \<lparr> QuadColors := randomizeColors rnd nQuads 0 (QuadColors q) \<rparr>;
          t2 = [ BufferSubData ARRAY_BUFFER (OffsetColors q) (len (QuadColors q) * bytesUint8)
                   (QuadColors q),
                 VertexAttribPointer (ContextFramebufferMultisample.attribVertexPosition ctx)
                   vertexPositionSize FLOAT False 0 (OffsetVertices q),
                 VertexAttribPointer (ContextFramebufferMultisample.attribVertexTexCoord ctx)
                   vertexTexCoordSize UNSIGNED_BYTE False 0 (OffsetTexCoords q),
                 VertexAttribPointer (ContextFramebufferMultisample.attribVertexColor ctx)
                   vertexColorSize UNSIGNED_BYTE True 0 (OffsetColors q),
                 DrawElements TRIANGLES (word_of_int (len (QuadIndices q))) UNSIGNED_SHORT
                   (OffsetIndices q),
                 BindBuffer ARRAY_BUFFER 0,
                 BindBuffer ELEMENT_ARRAY_BUFFER 0,
                 BindTexture TEXTURE_2D_MULTISAMPLE 0,
                 DisableVertexAttribArray (ContextFramebufferMultisample.attribVertexPosition ctx),
                 DisableVertexAttribArray (ContextFramebufferMultisample.attribVertexTexCoord ctx),
                 DisableVertexAttribArray (ContextFramebufferMultisample.attribVertexColor ctx) ]
      in (t1 @ t2,
          g \<lparr> ctxFramebufferMultisample := ctx \<lparr> ContextFramebufferMultisample.quads := q \<rparr> \<rparr>))"

definition ContextScreen_draw :: "globals \<Rightarrow> gl_call list" where
  "ContextScreen_draw g =
     (let ctx = ctxScreen g;
          q = ContextScreen.quads ctx
      in [ BindBuffer ARRAY_BUFFER (ContextScreen.vbo ctx),
           BindBuffer ELEMENT_ARRAY_BUFFER (ContextScreen.ibo ctx),
           ActiveTexture TEXTURE0,
           BindTexture TEXTURE_2D (ContextFramebuffer.fboTexture (ctxBlitz g)),
           EnableVertexAttribArray (ContextScreen.attribVertexPosition ctx),
           EnableVertexAttribArray (ContextScreen.attribVertexTexCoord ctx),
           VertexAttribPointer (ContextScreen.attribVertexPosition ctx)
             vertexPositionSize FLOAT False 0 (OffsetVertices q),
           VertexAttribPointer (ContextScreen.attribVertexTexCoord ctx)
             vertexTexCoordSize UNSIGNED_BYTE False 0 (OffsetTexCoords q),
           DrawElements TRIANGLES (word_of_int (len (QuadIndices q))) UNSIGNED_SHORT
             (OffsetIndices q),
           BindBuffer ARRAY_BUFFER 0,
           BindBuffer ELEMENT_ARRAY_BUFFER 0,
           BindTexture TEXTURE_2D 0,
           DisableVertexAttribArray (ContextScreen.attribVertexPosition ctx),
           DisableVertexAttribArray (ContextScreen.attribVertexTexCoord ctx) ])"

text \<open>One frame: \<open>draw()\<close>. The call of \<open>CheckGLError\<close> at its end is commented out.\<close>

definition draw :: "(int \<Rightarrow> int \<times> int \<times> int) \<Rightarrow> globals \<Rightarrow> gl_call list \<times> globals" where
  "draw rnd g =
     (let t1 = ContextFramebufferMultisample_bind g;
          (t2, g) = ContextFramebufferMultisample_draw rnd g;
          t3 = ContextFramebuffer_bind g;
          t4 = ContextFramebuffer_draw g;
          t5 = ContextScreen_bind g;
          t6 = ContextScreen_draw g
      in (t1 @ t2 @ t3 @ t4 @ t5 @ t6, g))"

text \<open>
  The game loop of \<open>main\<close>: \<open>for !window.ShouldClose() { draw(); ... }\<close>. The argument is
  the list of what the random generator gives in each frame, one entry for each pass of
  the loop before the window closes; sleeping, swapping buffers and polling events
  belong to the window library and are left out.
\<close>

fun gameloop :: "(int \<Rightarrow> int \<times> int \<times> int) list \<Rightarrow> globals \<Rightarrow> gl_call list \<times> globals" where
  "gameloop [] g = ([], g)"
| "gameloop (rnd # rnds) g =
     (let (t, g1) = draw rnd g;
          (ts, g2) = gameloop rnds g1
      in (t @ ts, g2))"

text \<open>
  The two functions of the program that allocate storage for an attachment of an
  offscreen target: the colour texture of the intermediate single-sample target and the
  depth and stencil renderbuffer of the multisample target. The first argument is the
  name that \<open>GenTextures\<close> or \<open>GenRenderbuffers\<close> writes to the context.
\<close>

definition ContextFramebuffer_attachTexture :: "uint32 \<Rightarrow> globals \<Rightarrow> gl_call list \<times> globals" where
  "ContextFramebuffer_attachTexture name g =
     (let ctx = (ctxBlitz g) \<lparr> ContextFramebuffer.fboTexture := name \<rparr>
      in ([ GenTextures 1,
            BindTexture TEXTURE_2D (ContextFramebuffer.fboTexture ctx),
            TexImage2D TEXTURE_2D 0 RGB
              (word_of_int windowWidth * int32_of_float32 (dpiScaleX g))
              (word_of_int windowHeight * int32_of_float32 (dpiScaleY g))
              0 RGB UNSIGNED_BYTE,
            TexParameteri TEXTURE_2D TEXTURE_MIN_FILTER NEAREST,
            TexParameteri TEXTURE_2D TEXTURE_MAG_FILTER NEAREST,
            BindTexture TEXTURE_2D 0,
            FramebufferTexture2D FRAMEBUFFER COLOR_ATTACHMENT0 TEXTURE_2D
              (ContextFramebuffer.fboTexture ctx) 0 ],
          g \<lparr> ctxBlitz := ctx \<rparr>))"

definition ContextFramebufferMultisample_attachRenderbufferMultisample ::
  "uint32 \<Rightarrow> globals \<Rightarrow> gl_call list \<times> globals" where
  "ContextFramebufferMultisample_attachRenderbufferMultisample name g =
     (let ctx = (ctxFramebufferMultisample g)
                  \<lparr> ContextFramebufferMultisample.fboRenderbuffer := name \<rparr>
      in ([ GenRenderbuffers 1,
            BindRenderbuffer RENDERBUFFER (ContextFramebufferMultisample.fboRenderbuffer ctx),
            RenderbufferStorageMultisampleEXT RENDERBUFFER msaaSamples DEPTH24_STENCIL8
              (word_of_int windowWidth * int32_of_float32 (dpiScaleX g))
              (word_of_int windowHeight * int32_of_float32 (dpiScaleY g)),
            BindRenderbuffer RENDERBUFFER 0,
            FramebufferRenderbuffer FRAMEBUFFER DEPTH_STENCIL_ATTACHMENT RENDERBUFFER
              (ContextFramebufferMultisample.fboRenderbuffer ctx) ],
          g \<lparr> ctxFramebufferMultisample := ctx \<rparr>))"

section \<open>The gl32 programs\<close>

text \<open>
  \<^verbatim>\<open>gl32-cube/test21-framebuffer-multisample/quad.go\<close> renders to one single-sample
  offscreen target and then to the screen.
\<close>

record gl32ms_ContextScreen =
  quads :: "uint32 ElementQuads"
  program :: uint32
  vbo :: uint32
  ibo :: uint32
  attribVertexPosition :: uint32
  attribVertexTexCoord :: uint32

record gl32ms_ContextFramebuffer =
  quads :: "uint32 ElementQuads"
  program :: uint32
  fbo :: uint32
  fboTexture :: uint32
  fboRenderbuffer :: uint32
  vbo :: uint32
  ibo :: uint32
  attribVertexPosition :: uint32
  attribVertexTexCoord :: uint32
  attribVertexColor :: uint32

record gl32ms_globals =
  dpiScaleX :: float32
  dpiScaleY :: float32
  ctxScreen :: gl32ms_ContextScreen
  ctxFramebuffer :: gl32ms_ContextFramebuffer

definition gl32ms_ContextFramebuffer_bind :: "gl32ms_globals \<Rightarrow> gl_call list" where
  "gl32ms_ContextFramebuffer_bind g =
     (let ctx = ctxFramebuffer g
      in [ UseProgram (gl32ms_ContextFramebuffer.program ctx),
           BindFramebufferEXT FRAMEBUFFER_EXT (gl32ms_ContextFramebuffer.fbo ctx),
           ClearColor 0.5 0.5 0.5 1,
           Clear [COLOR_BUFFER_BIT, DEPTH_BUFFER_BIT],
           Enable DEPTH_TEST ])"

definition gl32ms_ContextScreen_bind :: "gl32ms_globals \<Rightarrow> gl_call list" where
  "gl32ms_ContextScreen_bind g =
     (let ctx = gl32ms_globals.ctxScreen g
      in [ UseProgram (gl32ms_ContextScreen.program ctx),
           BindFramebufferEXT FRAMEBUFFER_EXT 0,
           ClearColor 0 0 0 1,
           Clear [COLOR_BUFFER_BIT],
           Disable DEPTH_TEST ])"

definition gl32ms_ContextFramebuffer_draw :: "gl32ms_globals \<Rightarrow> gl_call list" where
  "gl32ms_ContextFramebuffer_draw g =
     (let ctx = ctxFramebuffer g;
          q = gl32ms_ContextFramebuffer.quads ctx
      in [ BindBuffer ARRAY_BUFFER (gl32ms_ContextFramebuffer.vbo ctx),
           BindBuffer ELEMENT_ARRAY_BUFFER (gl32ms_ContextFramebuffer.ibo ctx),
           EnableVertexAttribArray (gl32ms_ContextFramebuffer.attribVertexPosition ctx),
           EnableVertexAttribArray (gl32ms_ContextFramebuffer.attribVertexTexCoord ctx),
           EnableVertexAttribArray (gl32ms_ContextFramebuffer.attribVertexColor ctx),
           VertexAttribPointer (gl32ms_ContextFramebuffer.attribVertexPosition ctx)
             vertexPositionSize FLOAT False 0 (OffsetVertices q),
           VertexAttribPointer (gl32ms_ContextFramebuffer.attribVertexTexCoord ctx)
             vertexTexCoordSize UNSIGNED_BYTE False 0 (OffsetTexCoords q),
           VertexAttribPointer (gl32ms_ContextFramebuffer.attribVertexColor ctx)
             vertexColorSize UNSIGNED_INT False 0 (OffsetColors q),
           DrawElements TRIANGLES (word_of_int (len (QuadIndices q))) UNSIGNED_SHORT
             (OffsetIndices q),
           BindBuffer ARRAY_BUFFER 0,
           BindBuffer ELEMENT_ARRAY_BUFFER 0,
           DisableVertexAttribArray (gl32ms_ContextFramebuffer.attribVertexPosition ctx),
           DisableVertexAttribArray (gl32ms_ContextFramebuffer.attribVertexTexCoord ctx),
           DisableVertexAttribArray (gl32ms_ContextFramebuffer.attribVertexColor ctx) ])"

definition gl32ms_ContextScreen_draw :: "gl32ms_globals \<Rightarrow> gl_call list" where
  "gl32ms_ContextScreen_draw g =
     (let ctx = gl32ms_globals.ctxScreen g;
          q = gl32ms_ContextScreen.quads ctx
      in [ BindBuffer ARRAY_BUFFER (gl32ms_ContextScreen.vbo ctx),
           BindBuffer ELEMENT_ARRAY_BUFFER (gl32ms_ContextScreen.ibo ctx),
           BindTexture TEXTURE_2D (gl32ms_ContextFramebuffer.fboTexture (ctxFramebuffer g)),
           EnableVertexAttribArray (gl32ms_ContextScreen.attribVertexPosition ctx),
           EnableVertexAttribArray (gl32ms_ContextScreen.attribVertexTexCoord ctx),
           VertexAttribPointer (gl32ms_ContextScreen.attribVertexPosition ctx)
             vertexPositionSize FLOAT False 0 (OffsetVertices q),
           VertexAttribPointer (gl32ms_ContextScreen.attribVertexTexCoord ctx)
             vertexTexCoordSize UNSIGNED_BYTE False 0 (OffsetTexCoords q),
           DrawElements TRIANGLES (word_of_int (len (QuadIndices q))) UNSIGNED_SHORT
             (OffsetIndices q),
           BindBuffer ARRAY_BUFFER 0,
           BindBuffer ELEMENT_ARRAY_BUFFER 0,
           BindTexture TEXTURE_2D 0,
           DisableVertexAttribArray (gl32ms_ContextScreen.attribVertexPosition ctx),
           DisableVertexAttribArray (gl32ms_ContextScreen.attribVertexTexCoord ctx) ])"

text \<open>
  \<open>checkGLError\<close> reads the error code of OpenGL and panics unless it is \<open>NO_ERROR\<close>,
  which is 0 in the binding. The argument is the code that \<open>GetError\<close> returns; the
  result is the panic message, if any.
\<close>

definition NO_ERROR :: uint32 where "NO_ERROR = 0"

definition GL_ERROR_LOOKUP :: "uint32 \<rightharpoonup> string" where
  "GL_ERROR_LOOKUP =
     [ 0x500 \<mapsto> ''GL_INVALID_ENUM'',
       0x501 \<mapsto> ''GL_INVALID_VALUE'',
       0x502 \<mapsto> ''GL_INVALID_OPERATION'',
       0x503 \<mapsto> ''GL_STACK_OVERFLOW'',
       0x504 \<mapsto> ''GL_STACK_UNDERFLOW'',
       0x505 \<mapsto> ''GL_OUT_OF_MEMORY'',
       0x506 \<mapsto> ''GL_INVALID_FRAMEBUFFER_OPERATION'',
       0x507 \<mapsto> ''GL_CONTEXT_LOST'' ]"

definition panic_GL_ERROR :: "uint32 \<Rightarrow> string" where
  "panic_GL_ERROR errcode =
     (case GL_ERROR_LOOKUP errcode of
        Some errstr \<Rightarrow> ''GL_ERROR: '' @ errstr @ newline
      | None \<Rightarrow> ''GL_ERROR UNKNOWN: '' @ fmtNat (unat errcode) @ newline)"

definition checkGLError :: "uint32 \<Rightarrow> gl_call list \<times> string option" where
  "checkGLError glerr =
     ([GetError], if glerr = NO_ERROR then None else Some (panic_GL_ERROR glerr))"

definition gl32ms_draw :: "uint32 \<Rightarrow> gl32ms_globals \<Rightarrow> gl_call list \<times> string option" where
  "gl32ms_draw glerr g =
     (let t1 = gl32ms_ContextFramebuffer_bind g;
          t2 = gl32ms_ContextFramebuffer_draw g;
          t3 = gl32ms_ContextScreen_bind g;
          t4 = gl32ms_ContextScreen_draw g;
          (t5, panic) = checkGLError glerr
      in (t1 @ t2 @ t3 @ t4 @ t5, panic))"

definition gl32ms_ContextFramebuffer_attachTexture ::
  "uint32 \<Rightarrow> gl32ms_globals \<Rightarrow> gl_call list \<times> gl32ms_globals" where
  "gl32ms_ContextFramebuffer_attachTexture name g =
     (let ctx = (ctxFramebuffer g) \<lparr> gl32ms_ContextFramebuffer.fboTexture := name \<rparr>
      in ([ GenTextures 1,
            BindTexture TEXTURE_2D (gl32ms_ContextFramebuffer.fboTexture ctx),
            TexImage2D TEXTURE_2D 0 RGB
              (word_of_int windowWidth * int32_of_float32 (gl32ms_globals.dpiScaleX g))
              (word_of_int windowHeight * int32_of_float32 (gl32ms_globals.dpiScaleY g))
              0 RGB UNSIGNED_BYTE,
            TexParameteri TEXTURE_2D TEXTURE_MIN_FILTER NEAREST,
            TexParameteri TEXTURE_2D TEXTURE_MAG_FILTER NEAREST,
            FramebufferTexture2DEXT FRAMEBUFFER_EXT COLOR_ATTACHMENT0 TEXTURE_2D
              (gl32ms_ContextFramebuffer.fboTexture ctx) 0 ],
          g \<lparr> ctxFramebuffer := ctx \<rparr>))"

definition gl32ms_ContextFramebuffer_attachRenderbuffer ::
  "uint32 \<Rightarrow> gl32ms_globals \<Rightarrow> gl_call list \<times> gl32ms_globals" where
  "gl32ms_ContextFramebuffer_attachRenderbuffer name g =
     (let ctx = (ctxFramebuffer g) \<lparr> gl32ms_ContextFramebuffer.fboRenderbuffer := name \<rparr>
      in ([ GenRenderbuffersEXT 1,
            BindRenderbufferEXT RENDERBUFFER_EXT (gl32ms_ContextFramebuffer.fboRenderbuffer ctx),
            RenderbufferStorageEXT RENDERBUFFER_EXT DEPTH24_STENCIL8
              (word_of_int windowWidth * int32_of_float32 (gl32ms_globals.dpiScaleX g))
              (word_of_int windowHeight * int32_of_float32 (gl32ms_globals.dpiScaleY g)),
            BindRenderbufferEXT RENDERBUFFER_EXT 0,
            FramebufferRenderbufferEXT FRAMEBUFFER_EXT DEPTH_STENCIL_ATTACHMENT RENDERBUFFER_EXT
              (gl32ms_ContextFramebuffer.fboRenderbuffer ctx) ],
          g \<lparr> ctxFramebuffer := ctx \<rparr>))"

text \<open>
  \<^verbatim>\<open>gl32-cube/test21-framebuffer/quad.go\<close> binds its offscreen target and the screen with
  two functions on its package-level variables.
\<close>

definition gl32fb_bindProxyScreen :: "gl32fb_globals \<Rightarrow> gl_call list" where
  "gl32fb_bindProxyScreen g =
     [ UseProgram (programFramebuffer g),
       BindFramebufferEXT FRAMEBUFFER_EXT (gl32fb_globals.fbo g),
       ClearColor 0.5 0.5 0.5 1,
       Clear [COLOR_BUFFER_BIT, DEPTH_BUFFER_BIT],
       Enable DEPTH_TEST ]"

definition gl32fb_unbindProxyScreen :: "gl32fb_globals \<Rightarrow> gl_call list" where
  "gl32fb_unbindProxyScreen g =
     [ UseProgram (programScreen g),
       BindFramebufferEXT FRAMEBUFFER_EXT 0,
       ClearColor 0 0 0 1,
       Clear [COLOR_BUFFER_BIT],
       Disable DEPTH_TEST ]"

section \<open>Reading a list of OpenGL calls\<close>

text \<open>
  To state what a frame does to the render targets, a list of calls is read against the
  part of the OpenGL state that decides it: the framebuffers bound for reading and for
  drawing, and the clear colour. \<open>Clear\<close> clears the framebuffer bound for drawing with
  the clear colour, \<open>DrawElements\<close> draws into it, \<open>BlitFramebuffer\<close> copies from the
  framebuffer bound for reading into it. \<open>stages\<close> lists these effects in order.
\<close>

record gl_state =
  readFramebuffer :: uint32
  drawFramebuffer :: uint32
  clearColor :: "float32 \<times> float32 \<times> float32 \<times> float32"

datatype stage =
    Cleared uint32 "float32 \<times> float32 \<times> float32 \<times> float32"
  | Drawn uint32
  | Resolved uint32 uint32

definition gl_step :: "gl_call \<Rightarrow> gl_state \<Rightarrow> gl_state" where
  "gl_step c st =
     (case c of
        BindFramebuffer target f \<Rightarrow>
          (if target = FRAMEBUFFER then st \<lparr> readFramebuffer := f, drawFramebuffer := f \<rparr>
           else if target = READ_FRAMEBUFFER then st \<lparr> readFramebuffer := f \<rparr>
           else if target = DRAW_FRAMEBUFFER then st \<lparr> drawFramebuffer := f \<rparr>
           else st)
      | BindFramebufferEXT target f \<Rightarrow>
          (if target = FRAMEBUFFER_EXT then st \<lparr> readFramebuffer := f, drawFramebuffer := f \<rparr>
           else st)
      | ClearColor r g b a \<Rightarrow> st \<lparr> clearColor := (r, g, b, a) \<rparr>
      | _ \<Rightarrow> st)"

definition gl_effect :: "gl_call \<Rightarrow> gl_state \<Rightarrow> stage list" where
  "gl_effect c st =
     (case c of
        Clear _ \<Rightarrow> [Cleared (drawFramebuffer st) (clearColor st)]
      | DrawElements _ _ _ _ \<Rightarrow> [Drawn (drawFramebuffer st)]
      | BlitFramebuffer _ _ _ _ _ _ _ _ _ _ \<Rightarrow>
          [Resolved (readFramebuffer st) (drawFramebuffer st)]
      | _ \<Rightarrow> [])"

primrec stages :: "gl_call list \<Rightarrow> gl_state \<Rightarrow> stage list" where
  "stages [] st = []"
| "stages (c # cs) st = gl_effect c st @ stages cs (gl_step c st)"

text \<open>The clears among the stages: the framebuffer cleared and the alpha it is cleared to.\<close>

definition clearAlpha :: "stage \<Rightarrow> (uint32 \<times> float32) list" where
  "clearAlpha e =
     (case e of
        Cleared f color \<Rightarrow> (case color of (r, g, b, a) \<Rightarrow> [(f, a)])
      | _ \<Rightarrow> [])"

definition clears :: "gl_call list \<Rightarrow> gl_state \<Rightarrow> (uint32 \<times> float32) list" where
  "clears cs st = concat (map clearAlpha (stages cs st))"

text \<open>The width and height of every call that allocates storage for an attachment.\<close>

definition allocation :: "gl_call \<Rightarrow> (int32 \<times> int32) list" where
  "allocation c =
     (case c of
        TexImage2D _ _ _ w h _ _ _ \<Rightarrow> [(w, h)]
      | RenderbufferStorageMultisampleEXT _ _ _ w h \<Rightarrow> [(w, h)]
      | RenderbufferStorageEXT _ _ w h \<Rightarrow> [(w, h)]
      | _ \<Rightarrow> [])"

definition allocations :: "gl_call list \<Rightarrow> (int32 \<times> int32) list" where
  "allocations cs = concat (map allocation cs)"

text \<open>
  The uploads into a buffer that is already allocated: target, byte offset, byte size
  and data of every \<open>BufferSubData\<close>.
\<close>

definition upload :: "gl_call \<Rightarrow> (gl_enum \<times> int \<times> int \<times> uint8 list) list" where
  "upload c =
     (case c of
        BufferSubData t off n d \<Rightarrow> [(t, off, n, d)]
      | _ \<Rightarrow> [])"

definition uploads :: "gl_call list \<Rightarrow> (gl_enum \<times> int \<times> int \<times> uint8 list) list" where
  "uploads cs = concat (map upload cs)"

text \<open>
  A state of the gles20 program to evaluate a frame on: content scale 2, the two batches
  as \<open>load\<close> and \<open>setupBuffers\<close> build them, and names as an OpenGL driver hands them
  out.
\<close>

definition exampleGlobals :: globals where
  "exampleGlobals =
     \<lparr> globals.dpiScaleX = 2, globals.dpiScaleY = 2,
       globals.ctxScreen =
         \<lparr> ContextScreen.quads = ContextScreen_setupBuffers ContextScreen_load,
           ContextScreen.program = 1, ContextScreen.vbo = 1, ContextScreen.ibo = 2,
           ContextScreen.vao = 1,
           ContextScreen.attribVertexPosition = 0, ContextScreen.attribVertexTexCoord = 1 \<rparr>,
       globals.ctxBlitz = \<lparr> ContextFramebuffer.fbo = 2, ContextFramebuffer.fboTexture = 2 \<rparr>,
       globals.ctxFramebufferMultisample =
         \<lparr> ContextFramebufferMultisample.quads =
             ContextFramebufferMultisample_setupBuffers (fst ContextFramebufferMultisample_load),
           ContextFramebufferMultisample.program = 2,
           ContextFramebufferMultisample.fbo = 1,
           ContextFramebufferMultisample.fboTexture = 1,
           ContextFramebufferMultisample.fboRenderbuffer = 1,
           ContextFramebufferMultisample.vbo = 3,
           ContextFramebufferMultisample.ibo = 4,
           ContextFramebufferMultisample.vao = 2,
           ContextFramebufferMultisample.attribVertexPosition = 0,
           ContextFramebufferMultisample.attribVertexTexCoord = 1,
           ContextFramebufferMultisample.attribVertexColor = 2 \<rparr> \<rparr>"

text \<open>
  What the random generator gives in the frames evaluated below, the state of OpenGL
  before the first call (nothing bound, clear colour zero), and a state of the
  gl32 framebuffer program with an empty batch.
\<close>

definition exampleRandom :: "int \<Rightarrow> int \<times> int \<times> int" where
  "exampleRandom i = (7 + i, 2 * i, 200)"

definition gl_initial :: gl_state where
  "gl_initial = \<lparr> readFramebuffer = 0, drawFramebuffer = 0, clearColor = (0, 0, 0, 0) \<rparr>"

definition gl32fb_exampleGlobals :: gl32fb_globals where
  "gl32fb_exampleGlobals =
     \<lparr> quadVertices = [], quadTexCoords = [], quadColors = [], quadIndices = [],
       offsetVertices = 0, offsetTexCoords = 0, offsetColors = 0, vboBytesTotal = 0,
       programScreen = 1, programFramebuffer = 2,
       gl32fb_globals.fbo = 1, gl32fb_globals.fboTexture = 1, gl32fb_globals.fboRenderbuffer = 1,
       gl32fb_globals.vbo = 1, gl32fb_globals.ibo = 2,
       gl32fb_globals.attribVertexPosition = 0, gl32fb_globals.attribVertexTexCoord = 1,
       gl32fb_globals.attribVertexColor = 2,
       attribVertexPositionFBO = 0, attribVertexTextureFBO = 1 \<rparr>"

lemmas quad_consts =
  bytesFloat32_def bytesUint32_def bytesUint16_def bytesUint8_def vertexPositionSize_def
  vertexTexCoordSize_def vertexColorSize_def verticesPerQuad_def indicesPerQuad_def

section \<open>Properties of the quad batch\<close>

lemma makeQuadIndices_next:
  "makeQuadIndices (12 * int k + 12) =
     [word_of_nat (4 * k), word_of_nat (4 * k + 1), word_of_nat (4 * k + 2),
      word_of_nat (4 * k), word_of_nat (4 * k + 2), word_of_nat (4 * k + 3)]"
  by (simp add: makeQuadIndices_def quad_consts Let_def signed_divide_int_def)

lemma length_makeQuadIndices: "length (makeQuadIndices n) = 6"
  by (simp add: makeQuadIndices_def Let_def)

lemma unat_word_of_nat16: "unat (word_of_nat m :: uint16) = m mod 65536"
  by (simp add: unat_of_nat)

lemma unat_makeQuadIndices:
  "map unat (makeQuadIndices (12 * int k + 12)) =
     [(4 * k) mod 65536, (4 * k + 1) mod 65536, (4 * k + 2) mod 65536,
      (4 * k) mod 65536, (4 * k + 2) mod 65536, (4 * k + 3) mod 65536]"
  unfolding makeQuadIndices_next list.map unat_word_of_nat16 by (rule refl)

lemma DrawRectangle_QuadVertices:
  "QuadVertices (DrawRectangle q w h z clr) = QuadVertices q @ makeQuadVertices w h z"
  by (simp add: DrawRectangle_def Let_def)

lemma DrawRectangle_QuadTexCoords:
  "QuadTexCoords (DrawRectangle q w h z clr) = QuadTexCoords q @ makeQuadTextureCoord"
  by (simp add: DrawRectangle_def Let_def)

lemma DrawRectangle_QuadColors:
  "QuadColors (DrawRectangle q w h z clr) = QuadColors q @ makeQuadColors clr"
  by (simp add: DrawRectangle_def Let_def)

lemma DrawRectangle_QuadIndices:
  "QuadIndices (DrawRectangle q w h z clr) =
     QuadIndices q @ makeQuadIndices (len (QuadVertices q) + 12)"
  by (simp add: DrawRectangle_def Let_def makeQuadVertices_def add.commute)

lemma DrawRectangles_Nil: "DrawRectangles q [] = q"
  by (simp add: DrawRectangles_def)

lemma DrawRectangles_snoc:
  "DrawRectangles q (rs @ [(w, h, z, clr)]) = DrawRectangle (DrawRectangles q rs) w h z clr"
  by (simp add: DrawRectangles_def)

lemma length_QuadVertices_DrawRectangles:
  "length (QuadVertices (DrawRectangles q rs)) = length (QuadVertices q) + 12 * length rs"
proof (induction rs rule: rev_induct)
  case Nil
  show ?case by (simp add: DrawRectangles_Nil)
next
  case (snoc r rs)
  obtain w h z clr where r: "r = (w, h, z, clr)" by (cases r) auto
  show ?case
    by (simp add: r DrawRectangles_snoc DrawRectangle_QuadVertices snoc.IH makeQuadVertices_def)
qed

lemma length_QuadTexCoords_DrawRectangles:
  "length (QuadTexCoords (DrawRectangles q rs)) = length (QuadTexCoords q) + 8 * length rs"
proof (induction rs rule: rev_induct)
  case Nil
  show ?case by (simp add: DrawRectangles_Nil)
next
  case (snoc r rs)
  obtain w h z clr where r: "r = (w, h, z, clr)" by (cases r) auto
  show ?case
    by (simp add: r DrawRectangles_snoc DrawRectangle_QuadTexCoords snoc.IH
        makeQuadTextureCoord_def)
qed

lemma length_QuadColors_DrawRectangles:
  "length (QuadColors (DrawRectangles q rs)) = length (QuadColors q) + 16 * length rs"
proof (induction rs rule: rev_induct)
  case Nil
  show ?case by (simp add: DrawRectangles_Nil)
next
  case (snoc r rs)
  obtain w h z clr where r: "r = (w, h, z, clr)" by (cases r) auto
  show ?case
    by (simp add: r DrawRectangles_snoc DrawRectangle_QuadColors snoc.IH makeQuadColors_def)
qed

lemma length_QuadIndices_DrawRectangles:
  "length (QuadIndices (DrawRectangles q rs)) = length (QuadIndices q) + 6 * length rs"
proof (induction rs rule: rev_induct)
  case Nil
  show ?case by (simp add: DrawRectangles_Nil)
next
  case (snoc r rs)
  obtain w h z clr where r: "r = (w, h, z, clr)" by (cases r) auto
  show ?case
    by (simp add: r DrawRectangles_snoc DrawRectangle_QuadIndices snoc.IH length_makeQuadIndices)
qed

text \<open>The index stream of a batch built from the empty one, quad by quad.\<close>

lemma QuadIndices_DrawRectangles:
  "QuadIndices (DrawRectangles emptyQuads rs) =
     concat (map (\<lambda>k. makeQuadIndices (12 * int k + 12)) [0..<length rs])"
proof (induction rs rule: rev_induct)
  case Nil
  show ?case by (simp add: DrawRectangles_Nil emptyQuads_def)
next
  case (snoc r rs)
  obtain w h z clr where r: "r = (w, h, z, clr)" by (cases r) auto
  have l: "len (QuadVertices (DrawRectangles emptyQuads rs)) = 12 * int (length rs)"
    by (simp add: length_QuadVertices_DrawRectangles emptyQuads_def)
  show ?case
    by (simp add: r DrawRectangles_snoc DrawRectangle_QuadIndices snoc.IH l)
qed

lemma block_of_concat:
  assumes "\<And>j. length (f j) = 6" and "k < n"
  shows "take 6 (drop (6 * k) (concat (map f [0..<n]))) = f k"
  using assms(2)
proof (induction n)
  case 0
  then show ?case by simp
next
  case (Suc n)
  have L: "length (concat (map f [0..<n])) = 6 * n"
    by (induction n) (simp_all add: assms(1))
  show ?case
  proof (cases "k < n")
    case True
    then have "6 * k + 6 \<le> 6 * n" by simp
    then show ?thesis using Suc.IH [OF True] L by simp
  next
    case False
    with Suc.prems have "k = n" by simp
    then show ?thesis using L assms(1) by simp
  qed
qed

text \<open>
  Claim C1, as amended. \<open>DrawRectangle\<close> on a batch whose position stream holds whole
  quads (12 scalars each) keeps the indices that are there and appends six.
  With \<open>baseIndex\<close> the number of vertices in the position stream before the call (its
  length divided by 3), the six are \<open>baseIndex + {0,1,2,0,2,3}\<close> reduced modulo \<open>2^16\<close>,
  the indices being \<open>uint16\<close>; they are \<open>baseIndex + {0,1,2,0,2,3}\<close> themselves as long as
  \<open>baseIndex + 3\<close> is below 65536, that is when fewer than 16384 quads precede. The base
  is read from the length of the position stream alone.
\<close>

theorem DrawRectangle_base_index:
  assumes "12 dvd length (QuadVertices q)"
  shows "take (length (QuadIndices q)) (QuadIndices (DrawRectangle q w h z clr)) = QuadIndices q
     \<and> map unat (drop (length (QuadIndices q)) (QuadIndices (DrawRectangle q w h z clr)))
         = map (\<lambda>j. (length (QuadVertices q) div 3 + j) mod 65536) [0, 1, 2, 0, 2, 3]
     \<and> (length (QuadVertices q) div 3 + 3 < 65536 \<longrightarrow>
          map unat (drop (length (QuadIndices q)) (QuadIndices (DrawRectangle q w h z clr)))
            = map (\<lambda>j. length (QuadVertices q) div 3 + j) [0, 1, 2, 0, 2, 3])"
proof -
  from assms obtain k where k: "length (QuadVertices q) = 12 * k" by (auto simp: dvd_def)
  have b: "length (QuadVertices q) div 3 = 4 * k" by (simp add: k)
  have i: "QuadIndices (DrawRectangle q w h z clr) =
       QuadIndices q @ makeQuadIndices (12 * int k + 12)"
    by (simp add: DrawRectangle_QuadIndices k)
  show ?thesis
    by (simp add: i b unat_makeQuadIndices)
qed

theorem DrawRectangle_base_index_witness:
  "map unat (drop 6 (QuadIndices (DrawRectangle
      (DrawRectangle emptyQuads 2 2 (-1.2) \<lparr> R = 1, G = 0, B = 0, A = 1 \<rparr>)
      1 1 (-1.1) \<lparr> R = 0, G = 0, B = 255, A = 1 \<rparr>))) = [4, 5, 6, 4, 6, 7]"
proof -
  let ?q = "DrawRectangle emptyQuads 2 2 (-1.2) \<lparr> R = 1, G = 0, B = 0, A = 1 \<rparr>"
  have v: "length (QuadVertices ?q) = 12"
    by (simp add: DrawRectangle_QuadVertices emptyQuads_def makeQuadVertices_def)
  have i: "length (QuadIndices ?q) = 6"
    by (simp add: DrawRectangle_QuadIndices emptyQuads_def length_makeQuadIndices)
  have h: "12 dvd length (QuadVertices ?q)" unfolding v by simp
  from DrawRectangle_base_index [OF h, of 1 1 "-1.1" "\<lparr> R = 0, G = 0, B = 255, A = 1 \<rparr>"]
  show ?thesis unfolding v i by simp
qed

text \<open>
  Claim C1 as stated fails once 16384 quads precede: the batch then holds 65536
  vertices, and the quad appended to it gets the indices 0, 1, 2, 0, 2, 3 of the first
  quad, not 65536 and up.
\<close>

theorem DrawRectangle_base_index_counterexample:
  "length (QuadVertices (DrawRectangles emptyQuads
      (replicate 16384 (1, 1, 0, \<lparr> R = 0, G = 0, B = 0, A = 0 \<rparr>)))) div 3 = 65536
   \<and> map unat (drop 98304 (QuadIndices (DrawRectangle
        (DrawRectangles emptyQuads (replicate 16384 (1, 1, 0, \<lparr> R = 0, G = 0, B = 0, A = 0 \<rparr>)))
        1 1 0 \<lparr> R = 0, G = 0, B = 0, A = 0 \<rparr>)))
       = [0, 1, 2, 0, 2, 3]
   \<and> map unat (drop 98304 (QuadIndices (DrawRectangle
        (DrawRectangles emptyQuads (replicate 16384 (1, 1, 0, \<lparr> R = 0, G = 0, B = 0, A = 0 \<rparr>)))
        1 1 0 \<lparr> R = 0, G = 0, B = 0, A = 0 \<rparr>)))
       \<noteq> [65536, 65537, 65538, 65536, 65538, 65539]"
proof -
  let ?b = "DrawRectangles emptyQuads
      (replicate 16384 (1 :: real, 1 :: real, 0 :: real, \<lparr> R = 0, G = 0, B = 0, A = 0 \<rparr>))"
  have v: "length (QuadVertices ?b) = 12 * 16384"
    by (simp add: length_QuadVertices_DrawRectangles emptyQuads_def)
  have i: "length (QuadIndices ?b) = 98304"
    by (simp add: length_QuadIndices_DrawRectangles emptyQuads_def)
  have "len (QuadVertices ?b) + 12 = 12 * int 16384 + 12"
    by (simp add: v)
  then have "map unat (makeQuadIndices (len (QuadVertices ?b) + 12)) = [0, 1, 2, 0, 2, 3]"
    by (simp only: unat_makeQuadIndices) simp
  then show ?thesis
    by (simp add: DrawRectangle_QuadIndices i v)
qed

text \<open>
  Claim C2. After \<open>N\<close> calls of \<open>DrawRectangle\<close> on the empty batch the index stream
  has length \<open>6N\<close>, the position stream \<open>12N\<close>, the texture coordinate stream \<open>8N\<close> and the
  colour stream \<open>16N\<close>.
\<close>

theorem DrawRectangles_stream_lengths:
  "length (QuadIndices (DrawRectangles emptyQuads rs)) = 6 * length rs
   \<and> length (QuadVertices (DrawRectangles emptyQuads rs)) = 12 * length rs
   \<and> length (QuadTexCoords (DrawRectangles emptyQuads rs)) = 8 * length rs
   \<and> length (QuadColors (DrawRectangles emptyQuads rs)) = 16 * length rs"
  by (simp add: length_QuadIndices_DrawRectangles length_QuadVertices_DrawRectangles
      length_QuadTexCoords_DrawRectangles length_QuadColors_DrawRectangles emptyQuads_def)

text \<open>
  Claim C3, as amended. For \<open>1 \<le> N \<le> 16384\<close>, after \<open>N\<close> quads are appended to the empty
  batch the largest index in the index stream is \<open>4N - 1\<close>, and the six indices of the
  quad at position \<open>k\<close> lie in \<open>[4k, 4k + 3]\<close>.
\<close>

theorem DrawRectangles_index_ranges:
  assumes "1 \<le> length rs" and "length rs \<le> 16384"
  shows "Max (unat ` set (QuadIndices (DrawRectangles emptyQuads rs))) = 4 * length rs - 1
     \<and> (\<forall>k < length rs.
          \<forall>x \<in> set (take 6 (drop (6 * k) (QuadIndices (DrawRectangles emptyQuads rs)))).
            4 * k \<le> unat x \<and> unat x \<le> 4 * k + 3)"
proof -
  let ?n = "length rs"
  let ?f = "\<lambda>k. makeQuadIndices (12 * int k + 12)"
  let ?I = "QuadIndices (DrawRectangles emptyQuads rs)"
  have I: "?I = concat (map ?f [0..<?n])" by (rule QuadIndices_DrawRectangles)
  have small: "map unat (?f k) = [4 * k, 4 * k + 1, 4 * k + 2, 4 * k, 4 * k + 2, 4 * k + 3]"
    if "k < ?n" for k
  proof -
    from that assms(2) have "4 * k + 3 < 65536" by simp
    then show ?thesis by (simp add: unat_makeQuadIndices)
  qed
  have img: "unat ` set (?f k) = {4 * k, 4 * k + 1, 4 * k + 2, 4 * k + 3}" if "k < ?n" for k
  proof -
    have "unat ` set (?f k) = set (map unat (?f k))" by simp
    also have "\<dots> = {4 * k, 4 * k + 1, 4 * k + 2, 4 * k + 3}"
      unfolding small [OF that] by auto
    finally show ?thesis .
  qed
  have blocks: "take 6 (drop (6 * k) ?I) = ?f k" if "k < ?n" for k
    unfolding I by (rule block_of_concat [OF length_makeQuadIndices that])
  have range: "\<forall>k < ?n. \<forall>x \<in> set (take 6 (drop (6 * k) ?I)). 4 * k \<le> unat x \<and> unat x \<le> 4 * k + 3"
  proof (intro allI impI ballI)
    fix k x assume k: "k < ?n" and x: "x \<in> set (take 6 (drop (6 * k) ?I))"
    then have "unat x \<in> unat ` set (?f k)" by (simp add: blocks)
    then show "4 * k \<le> unat x \<and> unat x \<le> 4 * k + 3" unfolding img [OF k] by auto
  qed
  have set_I: "unat ` set ?I = (\<Union>k \<in> {0..<?n}. unat ` set (?f k))"
    unfolding I by auto
  have "Max (unat ` set ?I) = 4 * ?n - 1"
  proof (rule Max_eqI)
    show "finite (unat ` set ?I)" by simp
  next
    fix y assume "y \<in> unat ` set ?I"
    then obtain k where k: "k < ?n" and "y \<in> unat ` set (?f k)" unfolding set_I by auto
    then have "y \<le> 4 * k + 3" unfolding img [OF k] by auto
    with k show "y \<le> 4 * ?n - 1" by simp
  next
    from assms(1) have k: "?n - 1 < ?n" by simp
    have "4 * (?n - 1) + 3 \<in> unat ` set (?f (?n - 1))" unfolding img [OF k] by simp
    moreover have "4 * (?n - 1) + 3 = 4 * ?n - 1" using assms(1) by simp
    ultimately have "4 * ?n - 1 \<in> unat ` set (?f (?n - 1))" by simp
    then show "4 * ?n - 1 \<in> unat ` set ?I" unfolding set_I
      by (rule UN_I [rotated]) (use k in simp)
  qed
  with range show ?thesis by simp
qed

theorem DrawRectangles_index_ranges_witness:
  "Max (unat ` set (QuadIndices (DrawRectangles emptyQuads
      [(2, 2, -1.2, \<lparr> R = 1, G = 0, B = 0, A = 1 \<rparr>),
       (1, 1, -1.1, \<lparr> R = 0, G = 0, B = 255, A = 1 \<rparr>)]))) = 7"
  using DrawRectangles_index_ranges
    [of "[(2, 2, -1.2, \<lparr> R = 1, G = 0, B = 0, A = 1 \<rparr>),
          (1, 1, -1.1, \<lparr> R = 0, G = 0, B = 255, A = 1 \<rparr>)]"]
  by simp

text \<open>
  Claim C3 as stated fails at \<open>N = 16385\<close>: the largest index is not \<open>4N - 1 = 65539\<close>, and
  the quad at position 16384 has the indices 0, 1, 2, 0, 2, 3, outside
  \<open>[65536, 65539]\<close>.
\<close>

theorem DrawRectangles_index_ranges_counterexample:
  "Max (unat ` set (QuadIndices (DrawRectangles emptyQuads
      (replicate 16385 (1, 1, 0, \<lparr> R = 0, G = 0, B = 0, A = 0 \<rparr>))))) \<noteq> 4 * 16385 - 1
   \<and> map unat (take 6 (drop (6 * 16384) (QuadIndices (DrawRectangles emptyQuads
      (replicate 16385 (1, 1, 0, \<lparr> R = 0, G = 0, B = 0, A = 0 \<rparr>)))))) = [0, 1, 2, 0, 2, 3]"
proof -
  let ?rs = "replicate 16385 (1 :: real, 1 :: real, 0 :: real, \<lparr> R = 0, G = 0, B = 0, A = 0 \<rparr>)"
  let ?I = "QuadIndices (DrawRectangles emptyQuads ?rs)"
  have "length ?I = 6 * 16385"
    by (simp add: length_QuadIndices_DrawRectangles emptyQuads_def)
  then have "0 < length ?I" by simp
  then have ne: "?I \<noteq> []" by (rule length_greater_0_conv [THEN iffD1])
  have "Max (unat ` set ?I) \<in> unat ` set ?I"
    by (rule Max_in) (simp_all add: ne)
  then obtain x :: uint16 where "Max (unat ` set ?I) = unat x" by auto
  moreover have "unat x < 65536" using unsigned_less [of x, where ?'a = nat] by simp
  ultimately have m: "Max (unat ` set ?I) \<noteq> 4 * 16385 - 1" by simp
  have I: "?I = concat (map (\<lambda>k. makeQuadIndices (12 * int k + 12)) [0..<16385])"
    using QuadIndices_DrawRectangles [of ?rs] by simp
  have "take 6 (drop (6 * 16384) ?I) = makeQuadIndices (12 * int 16384 + 12)"
    unfolding I by (rule block_of_concat [OF length_makeQuadIndices]) simp
  then have "map unat (take 6 (drop (6 * 16384) ?I)) = [0, 1, 2, 0, 2, 3]"
    by (simp only: unat_makeQuadIndices) simp
  with m show ?thesis by simp
qed

text \<open>
  Claim C5, as amended. The batch that \<open>load\<close> builds, a 2 by 2 quad at depth -1.2 and
  then a 1 by 1 quad at depth -1.1, has 2 quads, 8 vertices and 12 index entries, and the
  text that \<open>DebugPrint\<close> writes for it starts with the line "RECT_COUNT -- Rectangles: 2".
\<close>

theorem load_two_rectangles:
  "length (QuadIndices (fst ContextFramebufferMultisample_load)) div 6 = 2
   \<and> length (QuadVertices (fst ContextFramebufferMultisample_load)) div 3 = 8
   \<and> length (QuadIndices (fst ContextFramebufferMultisample_load)) = 12
   \<and> snd ContextFramebufferMultisample_load =
       ''RECT_COUNT -- Rectangles: 2'' @ newline
       @ ''RAW_LENGTH -- Rectangle has 4 vertex'' @ newline
       @ ''Vertices   24 (3-per-vertex)'' @ newline
       @ ''TexCoord   16 (2-per-vertex)'' @ newline
       @ ''Colors     32 (4-per-vertex)'' @ newline
       @ ''Indices    12 (6-per-rectangle)'' @ newline"
  by (simp add: ContextFramebufferMultisample_load_def Let_def DrawRectangle_def emptyQuads_def
      DebugPrint_def makeQuadVertices_def makeQuadIndices_def makeQuadColors_def
      makeQuadTextureCoord_def quad_consts fmtInt_def fmtNat.simps signed_divide_int_def)

text \<open>Claim C5 as stated fails: the index stream of that batch does not have 48 entries.\<close>

theorem load_index_entries_counterexample:
  "length (QuadIndices (fst ContextFramebufferMultisample_load)) \<noteq> 48"
  by (simp add: ContextFramebufferMultisample_load_def Let_def DrawRectangle_def emptyQuads_def
      makeQuadVertices_def makeQuadIndices_def)

text \<open>
  Claim C10. Called with the length of a position stream that holds fewer than 12
  scalars, \<open>makeQuadIndices\<close> computes the rectangle count 0; the base index
  \<open>(0 - 1) * 4\<close> wraps modulo \<open>2^16\<close> to 65532, and the function returns the indices
  65532, 65533, 65534, 65532, 65534, 65535 and signals no error.
\<close>

theorem makeQuadIndices_underfull:
  assumes "0 \<le> n" and "n < 12"
  shows "n sdiv (verticesPerQuad * vertexPositionSize) = 0
     \<and> makeQuadIndices n = [65532, 65533, 65534, 65532, 65534, 65535]
     \<and> uint (hd (makeQuadIndices n)) = ((0 - 1) * 4) mod 2 ^ 16"
  using assms by (simp add: makeQuadIndices_def quad_consts Let_def signed_divide_int_def)

theorem makeQuadIndices_underfull_witness:
  "makeQuadIndices 0 = [65532, 65533, 65534, 65532, 65534, 65535]
   \<and> makeQuadIndices 11 = [65532, 65533, 65534, 65532, 65534, 65535]"
  using makeQuadIndices_underfull [of 0] makeQuadIndices_underfull [of 11] by simp

section \<open>Properties of the buffer layout\<close>

text \<open>
  Claim C4. The layout block of \<open>setupBuffers\<close> puts the positions at offset 0, the
  texture coordinates at \<open>len(positions) * 4\<close> and the colours at
  \<open>len(positions) * 4 + len(texcoords) * 1\<close>: each stream starts where the one before it
  ends, with no padding, so the byte range of each stream ends at or before the start of
  every later one, and the last ends within the buffer. The same holds for the screen
  batch, which has no colours, and for the gl32 framebuffer program, whose colours take
  4 bytes each.
\<close>

theorem setupBuffers_layout:
  "OffsetVertices (ContextFramebufferMultisample_setupBuffers q) = 0
   \<and> OffsetTexCoords (ContextFramebufferMultisample_setupBuffers q) = len (QuadVertices q) * 4
   \<and> OffsetColors (ContextFramebufferMultisample_setupBuffers q)
       = len (QuadVertices q) * 4 + len (QuadTexCoords q) * 1
   \<and> BytesTotal (ContextFramebufferMultisample_setupBuffers q)
       = len (QuadVertices q) * 4 + len (QuadTexCoords q) * 1 + len (QuadColors q) * 1
   \<and> OffsetVertices (ContextFramebufferMultisample_setupBuffers q) + len (QuadVertices q) * 4
       \<le> OffsetTexCoords (ContextFramebufferMultisample_setupBuffers q)
   \<and> OffsetTexCoords (ContextFramebufferMultisample_setupBuffers q) + len (QuadTexCoords q) * 1
       \<le> OffsetColors (ContextFramebufferMultisample_setupBuffers q)
   \<and> OffsetVertices (ContextFramebufferMultisample_setupBuffers q) + len (QuadVertices q) * 4
       \<le> OffsetColors (ContextFramebufferMultisample_setupBuffers q)
   \<and> OffsetColors (ContextFramebufferMultisample_setupBuffers q) + len (QuadColors q) * 1
       \<le> BytesTotal (ContextFramebufferMultisample_setupBuffers q)
   \<and> OffsetVertices (ContextScreen_setupBuffers q) = 0
   \<and> OffsetTexCoords (ContextScreen_setupBuffers q) = len (QuadVertices q) * 4
   \<and> OffsetVertices (ContextScreen_setupBuffers q) + len (QuadVertices q) * 4
       \<le> OffsetTexCoords (ContextScreen_setupBuffers q)
   \<and> OffsetTexCoords (ContextScreen_setupBuffers q) + len (QuadTexCoords q) * 1
       \<le> BytesTotal (ContextScreen_setupBuffers q)
   \<and> offsetVertices (gl32fb_setupBuffers g) = 0
   \<and> offsetTexCoords (gl32fb_setupBuffers g) = len (quadVertices g) * 4
   \<and> offsetColors (gl32fb_setupBuffers g) = len (quadVertices g) * 4 + len (quadTexCoords g) * 1
   \<and> offsetVertices (gl32fb_setupBuffers g) + len (quadVertices g) * 4
       \<le> offsetTexCoords (gl32fb_setupBuffers g)
   \<and> offsetTexCoords (gl32fb_setupBuffers g) + len (quadTexCoords g) * 1
       \<le> offsetColors (gl32fb_setupBuffers g)
   \<and> offsetColors (gl32fb_setupBuffers g) + len (quadColors g) * 4
       \<le> vboBytesTotal (gl32fb_setupBuffers g)"
  by (simp add: ContextFramebufferMultisample_setupBuffers_def ContextScreen_setupBuffers_def
      gl32fb_setupBuffers_def Let_def quad_consts)

section \<open>Properties of the render targets and of a frame\<close>

lemmas gl_simps = gl_step_def gl_effect_def

lemma draw_fst_snd:
  "draw rnd g =
     (ContextFramebufferMultisample_bind g @ fst (ContextFramebufferMultisample_draw rnd g)
        @ ContextFramebuffer_bind (snd (ContextFramebufferMultisample_draw rnd g))
        @ ContextFramebuffer_draw (snd (ContextFramebufferMultisample_draw rnd g))
        @ ContextScreen_bind (snd (ContextFramebufferMultisample_draw rnd g))
        @ ContextScreen_draw (snd (ContextFramebufferMultisample_draw rnd g)),
      snd (ContextFramebufferMultisample_draw rnd g))"
  by (simp add: draw_def Let_def split_beta)

lemma stages_draw_append:
  "stages (fst (draw rnd g) @ cs) st =
     [ Cleared (ContextFramebufferMultisample.fbo (ctxFramebufferMultisample g)) (0.5, 0.5, 0.5, 0),
       Drawn (ContextFramebufferMultisample.fbo (ctxFramebufferMultisample g)),
       Resolved (ContextFramebufferMultisample.fbo (ctxFramebufferMultisample g))
                (ContextFramebuffer.fbo (ctxBlitz g)),
       Cleared 0 (0, 0, 0, 0),
       Drawn 0 ]
     @ stages cs (st \<lparr> readFramebuffer := 0, drawFramebuffer := 0, clearColor := (0, 0, 0, 0) \<rparr>)"
  by (simp add: draw_fst_snd ContextFramebufferMultisample_bind_def
      ContextFramebufferMultisample_draw_def ContextFramebuffer_bind_def
      ContextFramebuffer_draw_def ContextScreen_bind_def ContextScreen_draw_def
      Let_def gl_simps)

lemma draw_keeps_names:
  "ContextFramebufferMultisample.fbo (ctxFramebufferMultisample (snd (draw rnd g)))
     = ContextFramebufferMultisample.fbo (ctxFramebufferMultisample g)"
  "ctxBlitz (snd (draw rnd g)) = ctxBlitz g"
  "globals.ctxScreen (snd (draw rnd g)) = globals.ctxScreen g"
  by (simp_all add: draw_fst_snd ContextFramebufferMultisample_draw_def Let_def)

lemma gameloop_Cons:
  "gameloop (rnd # rnds) g =
     (fst (draw rnd g) @ fst (gameloop rnds (snd (draw rnd g))),
      snd (gameloop rnds (snd (draw rnd g))))"
  by (simp add: Let_def split_beta)

lemma stages_gameloop:
  "stages (fst (gameloop rnds g)) st =
     concat (replicate (length rnds)
       [ Cleared (ContextFramebufferMultisample.fbo (ctxFramebufferMultisample g)) (0.5, 0.5, 0.5, 0),
         Drawn (ContextFramebufferMultisample.fbo (ctxFramebufferMultisample g)),
         Resolved (ContextFramebufferMultisample.fbo (ctxFramebufferMultisample g))
                  (ContextFramebuffer.fbo (ctxBlitz g)),
         Cleared 0 (0, 0, 0, 0),
         Drawn 0 ])"
proof (induction rnds arbitrary: g st)
  case Nil
  show ?case by simp
next
  case (Cons rnd rnds)
  show ?case
    unfolding gameloop_Cons fst_conv stages_draw_append Cons.IH draw_keeps_names
    by simp
qed

lemma stages_gl32ms_draw:
  "stages (fst (gl32ms_draw glerr g)) st =
     [ Cleared (gl32ms_ContextFramebuffer.fbo (ctxFramebuffer g)) (0.5, 0.5, 0.5, 1),
       Drawn (gl32ms_ContextFramebuffer.fbo (ctxFramebuffer g)),
       Cleared 0 (0, 0, 0, 1),
       Drawn 0 ]"
  by (simp add: gl32ms_draw_def gl32ms_ContextFramebuffer_bind_def gl32ms_ContextFramebuffer_draw_def
     gl32ms_ContextScreen_bind_def gl32ms_ContextScreen_draw_def checkGLError_def Let_def gl_simps)

text \<open>
  Claim C6. The claim asks for attachments of \<open>W * sx\<close> by \<open>H * sy\<close> pixels, the product
  cut to a whole number. At the device scale 1.5 every call that allocates an attachment
  of an offscreen target (the colour texture of the intermediate target and the depth
  and stencil renderbuffer of the multisample target in the gles20 program, the colour
  texture and the renderbuffer in the gl32 multisample program) asks for 600 by 400
  pixels, where the product is 900 by 600, rounded down or up: the code converts the
  scale to \<open>int32\<close> before it multiplies, and 1.5 becomes 1.
\<close>

theorem attachment_dimensions_at_fractional_scale:
  "map (\<lambda>(w, h). (sint w, sint h)) (allocations (fst (ContextFramebuffer_attachTexture 5
      (exampleGlobals \<lparr> globals.dpiScaleX := 1.5, globals.dpiScaleY := 1.5 \<rparr>)))) = [(600, 400)]
   \<and> map (\<lambda>(w, h). (sint w, sint h))
       (allocations (fst (ContextFramebufferMultisample_attachRenderbufferMultisample 5
      (exampleGlobals \<lparr> globals.dpiScaleX := 1.5, globals.dpiScaleY := 1.5 \<rparr>)))) = [(600, 400)]
   \<and> map (\<lambda>(w, h). (sint w, sint h))
       (allocations (fst (gl32ms_ContextFramebuffer_attachTexture 5
      (g' \<lparr> gl32ms_globals.dpiScaleX := 1.5, gl32ms_globals.dpiScaleY := 1.5 \<rparr>)))) = [(600, 400)]
   \<and> map (\<lambda>(w, h). (sint w, sint h))
       (allocations (fst (gl32ms_ContextFramebuffer_attachRenderbuffer 5
      (g' \<lparr> gl32ms_globals.dpiScaleX := 1.5, gl32ms_globals.dpiScaleY := 1.5 \<rparr>)))) = [(600, 400)]
   \<and> (\<lfloor>600 * (1.5 :: real)\<rfloor>, \<lfloor>400 * (1.5 :: real)\<rfloor>) = (900, 600)
   \<and> (\<lceil>600 * (1.5 :: real)\<rceil>, \<lceil>400 * (1.5 :: real)\<rceil>) = (900, 600)"
  by (simp add: allocations_def allocation_def ContextFramebuffer_attachTexture_def
      ContextFramebufferMultisample_attachRenderbufferMultisample_def
      gl32ms_ContextFramebuffer_attachTexture_def
      gl32ms_ContextFramebuffer_attachRenderbuffer_def Let_def
      exampleGlobals_def int32_of_float32_def windowWidth_def windowHeight_def)

text \<open>
  Claim C7, as amended. In a frame of the gles20 multisample program the offscreen
  target and then the screen are cleared, both with alpha 0. In the gl32 programs, which
  do not multisample, the offscreen target and the screen are cleared with alpha 1.
\<close>

theorem clear_alpha:
  "clears (fst (draw rnd g)) st
     = [(ContextFramebufferMultisample.fbo (ctxFramebufferMultisample g), 0), (0, 0)]
   \<and> clears (fst (gl32ms_draw glerr g')) st
     = [(gl32ms_ContextFramebuffer.fbo (ctxFramebuffer g'), 1), (0, 1)]
   \<and> clears (gl32fb_bindProxyScreen g'') st = [(gl32fb_globals.fbo g'', 1)]
   \<and> clears (gl32fb_unbindProxyScreen g'') st = [(0, 1)]"
proof -
  have "clears (fst (draw rnd g)) st
     = [(ContextFramebufferMultisample.fbo (ctxFramebufferMultisample g), 0), (0, 0)]"
    using stages_draw_append [of rnd g "[]" st] by (simp add: clears_def clearAlpha_def)
  moreover have "clears (fst (gl32ms_draw glerr g')) st
     = [(gl32ms_ContextFramebuffer.fbo (ctxFramebuffer g'), 1), (0, 1)]"
    by (simp add: clears_def clearAlpha_def stages_gl32ms_draw)
  moreover have "clears (gl32fb_bindProxyScreen g'') st = [(gl32fb_globals.fbo g'', 1)]"
    by (simp add: clears_def clearAlpha_def gl32fb_bindProxyScreen_def gl_simps)
  moreover have "clears (gl32fb_unbindProxyScreen g'') st = [(0, 1)]"
    by (simp add: clears_def clearAlpha_def gl32fb_unbindProxyScreen_def gl_simps)
  ultimately show ?thesis by simp
qed

text \<open>
  Claim C7 as stated fails for the gl32 framebuffer program: its offscreen target
  (framebuffer 1 here) and its screen are cleared with alpha 1.
\<close>

theorem clear_alpha_counterexample:
  "clears (gl32fb_bindProxyScreen gl32fb_exampleGlobals) gl_initial = [(1, 1)]
   \<and> snd (hd (clears (gl32fb_bindProxyScreen gl32fb_exampleGlobals) gl_initial)) \<noteq> 0
   \<and> clears (gl32fb_unbindProxyScreen gl32fb_exampleGlobals) gl_initial = [(0, 1)]
   \<and> snd (hd (clears (gl32fb_unbindProxyScreen gl32fb_exampleGlobals) gl_initial)) \<noteq> 0"
  by (simp add: clears_def clearAlpha_def gl32fb_bindProxyScreen_def gl32fb_unbindProxyScreen_def
      gl32fb_exampleGlobals_def gl_initial_def gl_simps)

text \<open>
  Claim C8. Every frame of the gles20 multisample program clears and draws the offscreen
  target, resolves it into the intermediate target, then clears and draws the screen:
  the game loop yields this sequence once for each frame, whatever the state and the
  random colours. A frame of the gl32 multisample program, which has one single-sample
  offscreen target, clears and draws the offscreen target and then the screen, and
  resolves nothing.
\<close>

theorem frame_stages:
  "stages (fst (gameloop rnds g)) st =
     concat (replicate (length rnds)
       [ Cleared (ContextFramebufferMultisample.fbo (ctxFramebufferMultisample g)) (0.5, 0.5, 0.5, 0),
         Drawn (ContextFramebufferMultisample.fbo (ctxFramebufferMultisample g)),
         Resolved (ContextFramebufferMultisample.fbo (ctxFramebufferMultisample g))
                  (ContextFramebuffer.fbo (ctxBlitz g)),
         Cleared 0 (0, 0, 0, 0),
         Drawn 0 ])
   \<and> stages (fst (gl32ms_draw glerr g')) st' =
       [ Cleared (gl32ms_ContextFramebuffer.fbo (ctxFramebuffer g')) (0.5, 0.5, 0.5, 1),
         Drawn (gl32ms_ContextFramebuffer.fbo (ctxFramebuffer g')),
         Cleared 0 (0, 0, 0, 1),
         Drawn 0 ]
   \<and> length (filter (\<lambda>e. case e of Resolved r d \<Rightarrow> True | _ \<Rightarrow> False)
         (stages (fst (gl32ms_draw glerr g')) st')) = 0"
  by (simp add: stages_gameloop stages_gl32ms_draw)

lemma len_sdiv: "len xs sdiv indicesPerQuad = int (length xs div 6)"
  by (simp add: indicesPerQuad_def signed_divide_int_def sgn_if zdiv_int)

lemma randomizeColors_eq:
  "randomizeColors rnd nQuads i colors =
     colors @ concat (map (\<lambda>j. makeQuadColors (RandomColorInRGBA (rnd j))) [i..nQuads - 1])"
proof (induction rnd nQuads i colors rule: randomizeColors.induct)
  case (1 rnd nQuads i colors)
  show ?case
  proof (cases "i < nQuads")
    case True
    then have u: "[i..nQuads - 1] = i # [i + 1..nQuads - 1]" by (simp add: upto_rec1)
    show ?thesis
      using True 1 [OF True] by (simp add: randomizeColors.simps [of rnd nQuads i] u)
  next
    case False
    then show ?thesis by (simp add: randomizeColors.simps [of rnd nQuads i])
  qed
qed

lemma length_randomizeColors:
  "length (randomizeColors rnd nQuads i colors) = length colors + 16 * nat (nQuads - i)"
proof (induction rnd nQuads i colors rule: randomizeColors.induct)
  case (1 rnd nQuads i colors)
  show ?case
  proof (cases "i < nQuads")
    case True
    have "nat (nQuads - i) = Suc (nat (nQuads - (i + 1)))" using True by simp
    then show ?thesis
      using True 1 [OF True]
      by (simp add: randomizeColors.simps [of rnd nQuads i] makeQuadColors_def)
  next
    case False
    then show ?thesis by (simp add: randomizeColors.simps [of rnd nQuads i])
  qed
qed

lemma draw_changes_colors_only:
  "snd (draw rnd g) =
     g \<lparr> ctxFramebufferMultisample := (ctxFramebufferMultisample g)
          \<lparr> ContextFramebufferMultisample.quads :=
              (ContextFramebufferMultisample.quads (ctxFramebufferMultisample g))
                \<lparr> QuadColors := randomizeColors rnd
                    (len (QuadIndices (ContextFramebufferMultisample.quads
                       (ctxFramebufferMultisample g))) sdiv indicesPerQuad) 0 [] \<rparr> \<rparr> \<rparr>"
  by (simp add: draw_fst_snd ContextFramebufferMultisample_draw_def Let_def)

lemma gameloop_changes_colors_only:
  "snd (gameloop rnds g) =
     g \<lparr> ctxFramebufferMultisample := (ctxFramebufferMultisample g)
          \<lparr> ContextFramebufferMultisample.quads :=
              (ContextFramebufferMultisample.quads (ctxFramebufferMultisample g))
                \<lparr> QuadColors := QuadColors (ContextFramebufferMultisample.quads
                     (ctxFramebufferMultisample (snd (gameloop rnds g)))) \<rparr> \<rparr> \<rparr>"
proof (induction rnds arbitrary: g)
  case Nil
  show ?case by simp
next
  case (Cons rnd rnds)
  let ?g1 = "snd (draw rnd g)"
  have 1: "snd (gameloop (rnd # rnds) g) = snd (gameloop rnds ?g1)"
    unfolding gameloop_Cons by simp
  show ?case
    unfolding 1
    by (subst Cons.IH [of ?g1]) (simp add: draw_changes_colors_only)
qed

lemma uploads_append: "uploads (a @ b) = uploads a @ uploads b"
  by (simp add: uploads_def)

lemma uploads_draw:
  "uploads (fst (draw rnd g)) =
     [(ARRAY_BUFFER,
       OffsetColors (ContextFramebufferMultisample.quads (ctxFramebufferMultisample g)),
       len (QuadColors (ContextFramebufferMultisample.quads
              (ctxFramebufferMultisample (snd (draw rnd g))))) * 1,
       QuadColors (ContextFramebufferMultisample.quads
              (ctxFramebufferMultisample (snd (draw rnd g)))))]"
  by (simp add: draw_fst_snd uploads_def upload_def ContextFramebufferMultisample_bind_def
      ContextFramebufferMultisample_draw_def ContextFramebuffer_bind_def
      ContextFramebuffer_draw_def ContextScreen_bind_def ContextScreen_draw_def
      Let_def bytesUint8_def)

lemma draw_keeps_layout:
  "OffsetColors (ContextFramebufferMultisample.quads (ctxFramebufferMultisample (snd (draw rnd g))))
     = OffsetColors (ContextFramebufferMultisample.quads (ctxFramebufferMultisample g))"
  "QuadIndices (ContextFramebufferMultisample.quads (ctxFramebufferMultisample (snd (draw rnd g))))
     = QuadIndices (ContextFramebufferMultisample.quads (ctxFramebufferMultisample g))"
  by (simp_all add: draw_changes_colors_only)

lemma uploads_gameloop:
  "map (\<lambda>(t, off, n, d). (t, off, n)) (uploads (fst (gameloop rnds g))) =
     replicate (length rnds)
       (ARRAY_BUFFER,
        OffsetColors (ContextFramebufferMultisample.quads (ctxFramebufferMultisample g)),
        16 * int (length (QuadIndices (ContextFramebufferMultisample.quads
                   (ctxFramebufferMultisample g))) div 6))"
proof (induction rnds arbitrary: g)
  case Nil
  show ?case by (simp add: uploads_def)
next
  case (Cons rnd rnds)
  have l: "len (QuadColors (ContextFramebufferMultisample.quads
              (ctxFramebufferMultisample (snd (draw rnd g)))))
      = 16 * int (length (QuadIndices (ContextFramebufferMultisample.quads
                   (ctxFramebufferMultisample g))) div 6)"
    by (subst draw_changes_colors_only) (simp add: len_sdiv length_randomizeColors)
  show ?case
    unfolding gameloop_Cons fst_conv uploads_append map_append Cons.IH draw_keeps_layout
    by (simp add: uploads_draw l)
qed

text \<open>
  Claim C9, as amended. After any number of frames the program state is the state
  before them except for the colour stream of the offscreen batch: positions, texture
  coordinates, indices, the layout and the screen batch are as set up. Each frame
  replaces the colour stream by one random colour for each quad, repeated for its 4
  vertices, so its length is 16 for each quad of the index stream, and uploads it: the
  frame issues one \<open>BufferSubData\<close>, into the array buffer at the colour offset of the
  layout, with the new colour stream as its data and the length of that stream as its
  size. Over the game loop that is one upload for each frame, each at the colour offset
  and of 16 bytes for each quad.
\<close>

theorem frames_change_colors_only:
  "snd (gameloop rnds g) =
     g \<lparr> ctxFramebufferMultisample := (ctxFramebufferMultisample g)
          \<lparr> ContextFramebufferMultisample.quads :=
              (ContextFramebufferMultisample.quads (ctxFramebufferMultisample g))
                \<lparr> QuadColors := QuadColors (ContextFramebufferMultisample.quads
                     (ctxFramebufferMultisample (snd (gameloop rnds g)))) \<rparr> \<rparr> \<rparr>
   \<and> QuadColors (ContextFramebufferMultisample.quads (ctxFramebufferMultisample (snd (draw rnd g))))
       = concat (map (\<lambda>i. makeQuadColors (RandomColorInRGBA (rnd i)))
           [0 .. int (length (QuadIndices (ContextFramebufferMultisample.quads
                   (ctxFramebufferMultisample g))) div 6) - 1])
   \<and> length (QuadColors (ContextFramebufferMultisample.quads
         (ctxFramebufferMultisample (snd (draw rnd g)))))
       = 16 * (length (QuadIndices (ContextFramebufferMultisample.quads
                   (ctxFramebufferMultisample g))) div 6)
   \<and> uploads (fst (draw rnd g)) =
       [(ARRAY_BUFFER,
         OffsetColors (ContextFramebufferMultisample.quads (ctxFramebufferMultisample g)),
         len (QuadColors (ContextFramebufferMultisample.quads
                (ctxFramebufferMultisample (snd (draw rnd g))))) * 1,
         QuadColors (ContextFramebufferMultisample.quads
                (ctxFramebufferMultisample (snd (draw rnd g)))))]
   \<and> map (\<lambda>(t, off, n, d). (t, off, n)) (uploads (fst (gameloop rnds g))) =
       replicate (length rnds)
         (ARRAY_BUFFER,
          OffsetColors (ContextFramebufferMultisample.quads (ctxFramebufferMultisample g)),
          16 * int (length (QuadIndices (ContextFramebufferMultisample.quads
                     (ctxFramebufferMultisample g))) div 6))"
proof -
  have 1: "snd (gameloop rnds g) =
     g \<lparr> ctxFramebufferMultisample := (ctxFramebufferMultisample g)
          \<lparr> ContextFramebufferMultisample.quads :=
              (ContextFramebufferMultisample.quads (ctxFramebufferMultisample g))
                \<lparr> QuadColors := QuadColors (ContextFramebufferMultisample.quads
                     (ctxFramebufferMultisample (snd (gameloop rnds g)))) \<rparr> \<rparr> \<rparr>"
    by (rule gameloop_changes_colors_only)
  have 2: "QuadColors (ContextFramebufferMultisample.quads (ctxFramebufferMultisample (snd (draw rnd g))))
       = concat (map (\<lambda>i. makeQuadColors (RandomColorInRGBA (rnd i)))
           [0 .. int (length (QuadIndices (ContextFramebufferMultisample.quads
                   (ctxFramebufferMultisample g))) div 6) - 1])"
    by (subst draw_changes_colors_only) (simp add: len_sdiv randomizeColors_eq)
  have 3: "length (QuadColors (ContextFramebufferMultisample.quads
         (ctxFramebufferMultisample (snd (draw rnd g)))))
       = 16 * (length (QuadIndices (ContextFramebufferMultisample.quads
                   (ctxFramebufferMultisample g))) div 6)"
    by (subst draw_changes_colors_only) (simp add: len_sdiv length_randomizeColors)
  note 4 = uploads_draw [of rnd g]
  note 5 = uploads_gameloop [of rnds g]
  from 1 2 3 4 5 show ?thesis by (intro conjI)
qed

text \<open>
  Claim C9 as stated fails: one frame on the batch that \<open>load\<close> builds replaces its
  colour stream.
\<close>

theorem frame_colors_counterexample:
  "QuadColors (ContextFramebufferMultisample.quads (ctxFramebufferMultisample exampleGlobals))
     = [1, 0, 0, 1,  1, 0, 0, 1,  1, 0, 0, 1,  1, 0, 0, 1,
        0, 0, 255, 1,  0, 0, 255, 1,  0, 0, 255, 1,  0, 0, 255, 1]
   \<and> QuadColors (ContextFramebufferMultisample.quads
        (ctxFramebufferMultisample (snd (draw exampleRandom exampleGlobals))))
     = [7, 0, 200, 1,  7, 0, 200, 1,  7, 0, 200, 1,  7, 0, 200, 1,
        8, 2, 200, 1,  8, 2, 200, 1,  8, 2, 200, 1,  8, 2, 200, 1]
   \<and> QuadColors (ContextFramebufferMultisample.quads
        (ctxFramebufferMultisample (snd (draw exampleRandom exampleGlobals))))
     \<noteq> QuadColors (ContextFramebufferMultisample.quads (ctxFramebufferMultisample exampleGlobals))"
proof -
  have q: "ContextFramebufferMultisample.quads (ctxFramebufferMultisample exampleGlobals)
      = ContextFramebufferMultisample_setupBuffers (fst ContextFramebufferMultisample_load)"
    by (simp add: exampleGlobals_def)
  have a: "QuadColors (ContextFramebufferMultisample_setupBuffers (fst ContextFramebufferMultisample_load))
     = [1, 0, 0, 1,  1, 0, 0, 1,  1, 0, 0, 1,  1, 0, 0, 1,
        0, 0, 255, 1,  0, 0, 255, 1,  0, 0, 255, 1,  0, 0, 255, 1]"
    by (simp add: ContextFramebufferMultisample_setupBuffers_def
        ContextFramebufferMultisample_load_def Let_def DrawRectangle_def emptyQuads_def
        makeQuadColors_def)
  have n: "length (QuadIndices (ContextFramebufferMultisample_setupBuffers
        (fst ContextFramebufferMultisample_load))) = 12"
    by (simp add: ContextFramebufferMultisample_setupBuffers_def
        ContextFramebufferMultisample_load_def Let_def DrawRectangle_def emptyQuads_def
        makeQuadIndices_def)
  have b: "QuadColors (ContextFramebufferMultisample.quads
        (ctxFramebufferMultisample (snd (draw exampleRandom exampleGlobals))))
     = [7, 0, 200, 1,  7, 0, 200, 1,  7, 0, 200, 1,  7, 0, 200, 1,
        8, 2, 200, 1,  8, 2, 200, 1,  8, 2, 200, 1,  8, 2, 200, 1]"
    by (subst draw_changes_colors_only)
       (simp add: q n indicesPerQuad_def signed_divide_int_def randomizeColors_eq upto_rec1
          makeQuadColors_def RandomColorInRGBA_def exampleRandom_def)
  show ?thesis unfolding b unfolding q a by simp
qed

end
